theory Spec2Isabelle
  imports Main "HOL-Library.Word" "HOL-Library.Product_Lexorder" "HOL-Library.List_Lexorder"
begin

section \<open>The frontend (src/main.js)\<close>

text \<open>
  The repository is a Tauri application: a JavaScript frontend (\<^verbatim>\<open>src/main.js\<close>, present in
  two snapshots, 0.2.0 and 0.3.0) that calls a Rust backend through \<^verbatim>\<open>invoke\<close>. The frontend
  is embedded here function by function. Its module-level variables, the part of the DOM it
  writes, \<^verbatim>\<open>localStorage\<close>, the calls it makes to the backend and the timers it sets are the
  fields of one state record that every function takes and returns. What a backend call
  answers and what the clock reads are arguments of the function that asks.
\<close>

subsection \<open>Strings\<close>

text \<open>
  A JavaScript string is a sequence of 16-bit code units. \<^verbatim>\<open>String.prototype.trim\<close> removes the
  code units of ECMAScript's WhiteSpace and LineTerminator productions from both ends.
\<close>

type_synonym jsstring = "16 word list"

definition js :: "string \<Rightarrow> jsstring" where
  "js s = map of_char s"

definition isWhiteSpace :: "16 word \<Rightarrow> bool" where
  "isWhiteSpace c \<longleftrightarrow>
     c \<in> set [0x0009, 0x000A, 0x000B, 0x000C, 0x000D, 0x0020, 0x00A0, 0x1680,
              0x2000, 0x2001, 0x2002, 0x2003, 0x2004, 0x2005, 0x2006, 0x2007,
              0x2008, 0x2009, 0x200A, 0x2028, 0x2029, 0x202F, 0x205F, 0x3000, 0xFEFF]"

definition trim :: "jsstring \<Rightarrow> jsstring" where
  "trim s = rev (dropWhile isWhiteSpace (rev (dropWhile isWhiteSpace s)))"

text \<open>\<^verbatim>\<open>!v\<close> for a variable that holds \<^verbatim>\<open>null\<close> or a string: both \<^verbatim>\<open>null\<close> and \<^verbatim>\<open>''\<close> are falsy.\<close>

definition truthy :: "jsstring option \<Rightarrow> bool" where
  "truthy v = (case v of None \<Rightarrow> False | Some x \<Rightarrow> x \<noteq> [])"

text \<open>\<^verbatim>\<open>s.length > 30 ? s.substring(0, 30) + '...' : s\<close>\<close>

definition preview :: "jsstring \<Rightarrow> jsstring" where
  "preview s = (if length s > 30 then take 30 s @ js ''...'' else s)"

subsection \<open>Data\<close>

record profile =
  public_key :: jsstring

record message =
  sender :: jsstring
  content :: jsstring
  timestamp :: int
  verified :: bool
  is_own_message :: bool

text \<open>
  A contact object. Snapshot 0.2.0 creates it with four properties; 0.3.0 adds
  \<^verbatim>\<open>last_read_time\<close> and \<^verbatim>\<open>unread_count\<close>. \<^verbatim>\<open>null\<close> is \<open>None\<close>.
\<close>

record contact =
  contact_public_key :: jsstring
  name :: "jsstring option"
  last_message :: "jsstring option"
  last_message_time :: "int option"

record contact2 = contact +
  last_read_time :: int
  unread_count :: int

record cacheData =
  cache_timestamp :: int
  messages :: "message list"

text \<open>
  \<^verbatim>\<open>localStorage\<close> holds text. The frontend only ever stores \<^verbatim>\<open>JSON.stringify\<close> of a contacts
  array or of a cache object and reads it back with \<^verbatim>\<open>JSON.parse\<close>; an item is modelled by the
  value it parses to. \<open>Other\<close> is any item that does not parse to the shape its reader expects
  (the readers catch that).
\<close>

datatype 'c stored =
  ContactsArray "(jsstring \<times> 'c) list"
| CacheData cacheData
| Other jsstring

text \<open>A call \<^verbatim>\<open>invoke(cmd, args)\<close> to the backend.\<close>

record invocation =
  cmd :: string
  args :: "(string \<times> jsstring) list"

text \<open>The callbacks handed to \<^verbatim>\<open>setTimeout\<close>.\<close>

datatype task =
  UpdateContactUnreadCount jsstring
| RefreshAfterSend
| ReloadConversation

datatype icon = Check | Warning

record messageEl =
  el_own :: bool
  el_content :: jsstring
  el_timestamp :: int
  el_verified :: icon

record contactEl =
  el_pubkey :: jsstring
  el_active :: bool
  el_name :: jsstring
  el_subtext :: jsstring
  el_unread :: "int option"

record 'c app =
  currentUser :: "profile option"
  currentContact :: "jsstring option"
  contacts :: "(jsstring \<times> 'c) list"
  isEditingContactName :: bool
  localStorage :: "jsstring \<rightharpoonup> 'c stored"
  newContactInput :: jsstring
  messageInput :: jsstring
  conversationTitle :: jsstring
  contactsList :: "contactEl list"
  messagesContainer :: "messageEl list"
  alerts :: "jsstring list"
  invoked :: "invocation list"
  timers :: "(nat \<times> task) list"
  uncaught :: "string list"

subsection \<open>The contacts Map\<close>

text \<open>
  \<^verbatim>\<open>contacts\<close> is a JavaScript \<^verbatim>\<open>Map\<close>: its entries in insertion order. \<^verbatim>\<open>set\<close> on a key the
  map has replaces the value where the entry stands; on a new key it appends the entry.
\<close>

definition contacts_has :: "'k \<Rightarrow> ('k \<times> 'v) list \<Rightarrow> bool" where
  "contacts_has k m \<longleftrightarrow> k \<in> fst ` set m"

definition contacts_get :: "'k \<Rightarrow> ('k \<times> 'v) list \<Rightarrow> 'v option" where
  "contacts_get k m = map_of m k"

primrec contacts_set :: "'k \<Rightarrow> 'v \<Rightarrow> ('k \<times> 'v) list \<Rightarrow> ('k \<times> 'v) list" where
  "contacts_set k v [] = [(k, v)]"
| "contacts_set k v (p # ps) = (if fst p = k then (k, v) # ps else p # contacts_set k v ps)"

text \<open>Assigning to a property of the contact object that the map holds under a key.\<close>

definition contacts_modify :: "'k \<Rightarrow> ('v \<Rightarrow> 'v) \<Rightarrow> ('k \<times> 'v) list \<Rightarrow> ('k \<times> 'v) list" where
  "contacts_modify k f m = map (\<lambda>(k', v). if k' = k then (k', f v) else (k', v)) m"

subsection \<open>Contacts: saving and rendering\<close>

definition contactsKey :: "profile \<Rightarrow> jsstring" where
  "contactsKey u = js ''contacts_'' @ public_key u"

definition saveContacts :: "'c app \<Rightarrow> 'c app" where
  "saveContacts s =
     (case currentUser s of
        None \<Rightarrow> s
      | Some u \<Rightarrow> s\<lparr>localStorage := (localStorage s)(contactsKey u \<mapsto> ContactsArray (contacts s))\<rparr>)"

text \<open>\<^verbatim>\<open>contact.name || pubkey.substring(0, 16) + '...'\<close>\<close>

definition displayName :: "jsstring \<Rightarrow> 'a contact_scheme \<Rightarrow> jsstring" where
  "displayName pubkey c = (if truthy (name c) then the (name c) else take 16 pubkey @ js ''...'')"

definition displaySubtext :: "jsstring \<Rightarrow> 'a contact_scheme \<Rightarrow> jsstring" where
  "displaySubtext pubkey c =
     (if truthy (name c) then take 16 pubkey @ js ''...''
      else if truthy (last_message c) then the (last_message c) else js ''No messages'')"

text \<open>Snapshot 0.2.0: one element per entry, in the map's order.\<close>

definition renderContacts_v1 :: "contact app \<Rightarrow> contact app" where
  "renderContacts_v1 s =
     s\<lparr>contactsList :=
         map (\<lambda>(pubkey, c).
                \<lparr>el_pubkey = pubkey, el_active = (currentContact s = Some pubkey),
                 el_name = displayName pubkey c, el_subtext = displaySubtext pubkey c,
                 el_unread = None\<rparr>)
             (contacts s)\<rparr>"

text \<open>
  Snapshot 0.3.0 sorts the entries first, by unread count and then by last message time, both
  descending (\<^verbatim>\<open>Array.prototype.sort\<close> is stable), and shows a badge where the count is positive.
\<close>

definition sortedContacts :: "(jsstring \<times> contact2) list \<Rightarrow> (jsstring \<times> contact2) list" where
  "sortedContacts m =
     sort_key (\<lambda>(pubkey, c). (- unread_count c,
                               - (case last_message_time c of None \<Rightarrow> 0 | Some t \<Rightarrow> t))) m"

definition renderContacts :: "contact2 app \<Rightarrow> contact2 app" where
  "renderContacts s =
     s\<lparr>contactsList :=
         map (\<lambda>(pubkey, c).
                \<lparr>el_pubkey = pubkey, el_active = (currentContact s = Some pubkey),
                 el_name = displayName pubkey c, el_subtext = displaySubtext pubkey c,
                 el_unread = (if unread_count c > 0 then Some (unread_count c) else None)\<rparr>)
             (sortedContacts (contacts s))\<rparr>"

subsection \<open>addContact\<close>

text \<open>
  The closing \<^verbatim>\<open>console.log\<close> of \<^verbatim>\<open>addContact\<close> reads \<^verbatim>\<open>currentUser.public_key\<close>: with nobody
  signed in that is a TypeError, thrown after the contact has been added.
\<close>

definition logUser :: "'c app \<Rightarrow> 'c app" where
  "logUser s =
     (case currentUser s of
        None \<Rightarrow> s\<lparr>uncaught := uncaught s @ [''TypeError'']\<rparr>
      | Some u \<Rightarrow> s)"

definition addContact_v1 :: "contact app \<Rightarrow> contact app" where
  "addContact_v1 s =
     (let pubkey = trim (newContactInput s) in
      if pubkey = [] then s
      else if contacts_has pubkey (contacts s) then
        s\<lparr>alerts := alerts s @ [js ''Contact already exists!'']\<rparr>
      else
        let s1 = s\<lparr>contacts :=
                     contacts_set pubkey
                       \<lparr>contact_public_key = pubkey, name = None, last_message = None,
                        last_message_time = None\<rparr> (contacts s)\<rparr>;
            s2 = renderContacts_v1 (saveContacts s1);
            s3 = s2\<lparr>newContactInput := []\<rparr>
        in logUser s3)"

definition addContact :: "contact2 app \<Rightarrow> contact2 app" where
  "addContact s =
     (let pubkey = trim (newContactInput s) in
      if pubkey = [] then s
      else if contacts_has pubkey (contacts s) then
        s\<lparr>alerts := alerts s @ [js ''Contact already exists!'']\<rparr>
      else
        let s1 = s\<lparr>contacts :=
                     contacts_set pubkey
                       \<lparr>contact_public_key = pubkey, name = None, last_message = None,
                        last_message_time = None, last_read_time = 0, unread_count = 0\<rparr>
                       (contacts s)\<rparr>;
            s2 = renderContacts (saveContacts s1);
            s3 = s2\<lparr>newContactInput := []\<rparr>;
            s4 = s3\<lparr>timers := timers s3 @ [(1000, UpdateContactUnreadCount pubkey)]\<rparr>
        in logUser s4)"

subsection \<open>The message cache\<close>

definition cacheKey :: "profile \<Rightarrow> jsstring \<Rightarrow> jsstring" where
  "cacheKey u otherPubkey = js ''messages_'' @ public_key u @ js ''_'' @ otherPubkey"

definition saveMessagesCache :: "int \<Rightarrow> jsstring \<Rightarrow> message list \<Rightarrow> 'c app \<Rightarrow> 'c app" where
  "saveMessagesCache now otherPubkey ms s =
     (case currentUser s of
        None \<Rightarrow> s
      | Some u \<Rightarrow>
          if length ms > 0 then
            s\<lparr>localStorage := (localStorage s)(cacheKey u otherPubkey \<mapsto>
                 CacheData \<lparr>cache_timestamp = now, messages = ms\<rparr>)\<rparr>
          else s)"

text \<open>\<^verbatim>\<open>null\<close> is \<open>None\<close>. An item that is not a cache object makes the \<^verbatim>\<open>try\<close> block throw.\<close>

definition loadMessagesCache :: "jsstring \<Rightarrow> 'c app \<Rightarrow> message list option" where
  "loadMessagesCache otherPubkey s =
     (case currentUser s of
        None \<Rightarrow> None
      | Some u \<Rightarrow>
          (case localStorage s (cacheKey u otherPubkey) of
             Some (CacheData cd) \<Rightarrow> Some (messages cd)
           | _ \<Rightarrow> None))"

text \<open>
  \<^verbatim>\<open>if (cached)\<close> is false for a missing item and for the empty text; an item that is
  there and is not a cache object throws inside the \<^verbatim>\<open>try\<close> and is left as it is.
\<close>

definition addMessageToCache :: "int \<Rightarrow> jsstring \<Rightarrow> message \<Rightarrow> 'c app \<Rightarrow> 'c app" where
  "addMessageToCache now otherPubkey newMessage s =
     (case currentUser s of
        None \<Rightarrow> s
      | Some u \<Rightarrow>
          let cacheKey = cacheKey u otherPubkey;
              fresh = s\<lparr>localStorage := (localStorage s)(cacheKey \<mapsto>
                        CacheData \<lparr>cache_timestamp = now, messages = [newMessage]\<rparr>)\<rparr>
          in (case localStorage s cacheKey of
                None \<Rightarrow> fresh
              | Some (CacheData cd) \<Rightarrow>
                  s\<lparr>localStorage := (localStorage s)(cacheKey \<mapsto>
                       CacheData \<lparr>cache_timestamp = now, messages = messages cd @ [newMessage]\<rparr>)\<rparr>
              | Some (Other txt) \<Rightarrow> if txt = [] then fresh else s
              | Some (ContactsArray arr) \<Rightarrow> s))"

subsection \<open>Messages on screen\<close>

text \<open>
  \<^verbatim>\<open>renderMessages\<close> empties the container and appends one element per message, whatever its
  \<^verbatim>\<open>verified\<close> flag. The element's \<^verbatim>\<open>innerHTML\<close> is a fixed template with three values spliced
  in, and the element is modelled by its class and those three values: \<open>el_content\<close> is
  \<^verbatim>\<open>message.content\<close>, which the template takes as it is, unescaped, so it is markup for the
  browser and not text; \<open>el_timestamp\<close> is the timestamp handed to
  \<^verbatim>\<open>formatMessageTimestamp\<close> (its text depends on the locale and the clock); \<open>el_verified\<close>
  is the icon the flag picks. What the browser displays for the resulting markup is not
  modelled.
\<close>

definition renderMessages :: "message list \<Rightarrow> 'c app \<Rightarrow> 'c app" where
  "renderMessages ms s =
     s\<lparr>messagesContainer :=
         map (\<lambda>m. \<lparr>el_own = is_own_message m, el_content = content m,
                    el_timestamp = timestamp m,
                    el_verified = (if verified m then Check else Warning)\<rparr>) ms\<rparr>"

subsection \<open>markContactAsRead\<close>

text \<open>\<^verbatim>\<open>Math.floor(Date.now() / 1000)\<close> is \<open>now div 1000\<close>.\<close>

definition markContactAsRead :: "int \<Rightarrow> jsstring \<Rightarrow> contact2 app \<Rightarrow> contact2 app" where
  "markContactAsRead now pubkey s =
     (case contacts_get pubkey (contacts s) of
        None \<Rightarrow> s
      | Some c \<Rightarrow>
          let hadUnreadMessages = unread_count c > 0;
              s1 = s\<lparr>contacts :=
                     contacts_modify pubkey
                       (\<lambda>c. c\<lparr>last_read_time := now div 1000, unread_count := 0\<rparr>) (contacts s)\<rparr>
          in if hadUnreadMessages then renderContacts (saveContacts s1) else s1)"

subsection \<open>sendMessage\<close>

text \<open>
  \<open>resp\<close> is what \<^verbatim>\<open>invoke('send_message', ...)\<close> answers: \<open>Inl\<close> the error it rejects with.
  Building the optimistic message reads \<^verbatim>\<open>currentUser.public_key\<close>, a TypeError when nobody is
  signed in. The two \<^verbatim>\<open>setTimeout\<close> callbacks are recorded as pending timers.
\<close>

definition sendMessage :: "int \<Rightarrow> jsstring + unit \<Rightarrow> contact2 app \<Rightarrow> contact2 app" where
  "sendMessage now resp s =
     (if \<not> truthy (currentContact s) \<or> trim (messageInput s) = [] then s
      else
        let messageContent = trim (messageInput s);
            recipient = the (currentContact s);
            s1 = s\<lparr>messageInput := []\<rparr>
        in (case currentUser s1 of
              None \<Rightarrow> s1\<lparr>uncaught := uncaught s1 @ [''TypeError'']\<rparr>
            | Some u \<Rightarrow>
                let optimisticMessage =
                      \<lparr>sender = public_key u, content = messageContent,
                       timestamp = now div 1000, verified = True, is_own_message = True\<rparr>;
                    s2 = addMessageToCache now recipient optimisticMessage s1;
                    s3 = (case loadMessagesCache recipient s2 of
                            Some cachedMessages \<Rightarrow> renderMessages cachedMessages s2
                          | None \<Rightarrow> s2);
                    s4 = (case contacts_get recipient (contacts s3) of
                            Some c \<Rightarrow>
                              renderContacts (saveContacts
                                (s3\<lparr>contacts :=
                                      contacts_modify recipient
                                        (\<lambda>c. c\<lparr>last_message := Some (preview messageContent),
                                                last_message_time := Some (now div 1000)\<rparr>)
                                        (contacts s3)\<rparr>))
                          | None \<Rightarrow> s3);
                    s5 = s4\<lparr>invoked := invoked s4 @
                              [\<lparr>cmd = ''send_message'',
                                args = [(''recipientPubkey'', recipient),
                                        (''content'', messageContent)]\<rparr>]\<rparr>
                in (case resp of
                      Inr ok \<Rightarrow> s5\<lparr>timers := timers s5 @ [(1000, RefreshAfterSend)]\<rparr>
                    | Inl error \<Rightarrow>
                        s5\<lparr>timers := timers s5 @ [(500, ReloadConversation)],
                           alerts := alerts s5 @ [js ''Failed to send message: '' @ error]\<rparr>)))"

subsection \<open>loadConversation\<close>

text \<open>
  \<open>resp\<close> is what \<^verbatim>\<open>invoke('get_conversation', {otherPubkey})\<close> answers; a rejection lands in the
  \<^verbatim>\<open>catch\<close> block. The title's suffix is a space and the code units of U+1F4C2.
\<close>

definition loadConversation ::
  "int \<Rightarrow> jsstring \<Rightarrow> jsstring + message list \<Rightarrow> contact2 app \<Rightarrow> contact2 app" where
  "loadConversation now pubkey resp s =
     (let s1 = (case loadMessagesCache pubkey s of
                  Some cachedMessages \<Rightarrow>
                    if length cachedMessages > 0 then
                      let r = renderMessages cachedMessages s
                      in (case contacts_get pubkey (contacts r) of
                            Some c \<Rightarrow>
                              r\<lparr>conversationTitle := displayName pubkey c @ [0x20, 0xD83D, 0xDCC2]\<rparr>
                          | None \<Rightarrow> r)
                    else s
                | None \<Rightarrow> s);
          s2 = s1\<lparr>invoked := invoked s1 @
                    [\<lparr>cmd = ''get_conversation'', args = [(''otherPubkey'', pubkey)]\<rparr>]\<rparr>
      in (case resp of
            Inr ms \<Rightarrow>
              let s3 = renderMessages ms s2;
                  contact = contacts_get pubkey (contacts s3);
                  s4 = (case contact of
                          Some c \<Rightarrow> s3\<lparr>conversationTitle := displayName pubkey c\<rparr>
                        | None \<Rightarrow> s3);
                  s5 = (if length ms > 0 then saveMessagesCache now pubkey ms s4 else s4)
              in if length ms > 0 then
                   (case contact of
                      Some c \<Rightarrow>
                        let lastMessage = last ms;
                            s6 = s5\<lparr>contacts :=
                                   contacts_modify pubkey
                                     (\<lambda>c. c\<lparr>last_message := Some (preview (content lastMessage)),
                                             last_message_time := Some (timestamp lastMessage)\<rparr>)
                                     (contacts s5)\<rparr>
                        in renderContacts (saveContacts (markContactAsRead now pubkey s6))
                    | None \<Rightarrow> s5)
                 else s5
          | Inl error \<Rightarrow>
              (case loadMessagesCache pubkey s2 of
                 Some cachedMessages \<Rightarrow>
                   if length cachedMessages > 0 then renderMessages cachedMessages s2 else s2
               | None \<Rightarrow> s2)))"

subsection \<open>Polling\<close>





section \<open>The backend's read path, from the specification\<close>

text \<open>
  \<^verbatim>\<open>get_conversation\<close> is a command of the Rust backend, whose sources are not among the
  sources: the frontend only calls it. The model below follows sections 4.4 and 4.6 of the
  specification. The cipher, the signature scheme and the digest are the parameters
  \<open>aead_decrypt\<close>, \<open>verify\<close> and \<open>canonical_digest\<close>; the two fetches are given by their
  outcomes.
\<close>

type_synonym bytes = "8 word list"

text \<open>Modelled from the spec: the Message Record of section 3 (the Rust type is missing).\<close>

record message_record =
  mr_timestamp :: nat
  mr_encrypted_sender :: bytes
  mr_encrypted_content :: bytes
  mr_nonce :: bytes
  mr_signature :: bytes

datatype field = Sender | Content

datatype codec_error = DecryptionFailed

datatype fetch_error = StorageUnavailable

datatype conversation_error = ConversationUnavailable

text \<open>
  Modelled from the spec: the primitives of section 4.4, which the spec leaves to the
  implementer. \<open>aead_decrypt key field nonce ciphertext\<close> opens one field of a record under the
  conversation key (the sender's identity under the key derived for it), \<open>None\<close> when
  authentication fails.
\<close>

record 'k primitives =
  aead_decrypt :: "'k \<Rightarrow> field \<Rightarrow> bytes \<Rightarrow> bytes \<Rightarrow> bytes option"
  canonical_digest :: "nat \<Rightarrow> bytes \<Rightarrow> bytes \<Rightarrow> bytes \<Rightarrow> bytes"
  verify :: "bytes \<Rightarrow> bytes \<Rightarrow> bytes \<Rightarrow> bool"

text \<open>
  Modelled from the spec: \<^verbatim>\<open>decrypt_and_verify\<close> of section 4.4 (the Rust function is missing).
  Step 1 decrypts both fields; step 2 checks the signature over the digest of (timestamp,
  encrypted_content, encrypted_sender, nonce) against the recovered sender's key and returns
  the plaintext either way.
\<close>

definition decrypt_and_verify ::
  "'k primitives \<Rightarrow> message_record \<Rightarrow> 'k \<Rightarrow> bytes \<Rightarrow> codec_error + (bytes \<times> bytes \<times> bool)" where
  "decrypt_and_verify P r conversation_key counterpart_signing_public =
     (case aead_decrypt P conversation_key Sender (mr_nonce r) (mr_encrypted_sender r) of
        None \<Rightarrow> Inl DecryptionFailed
      | Some sender_identity \<Rightarrow>
          (case aead_decrypt P conversation_key Content (mr_nonce r) (mr_encrypted_content r) of
             None \<Rightarrow> Inl DecryptionFailed
           | Some plaintext \<Rightarrow>
               Inr (plaintext, sender_identity,
                    verify P sender_identity
                      (canonical_digest P (mr_timestamp r) (mr_encrypted_content r)
                         (mr_encrypted_sender r) (mr_nonce r))
                      (mr_signature r))))"

text \<open>Modelled from the spec: a record that survived step 2 of section 4.6, with what it
  decrypted to.\<close>

record survivor =
  sv_record :: message_record
  sv_plaintext :: bytes
  sv_sender :: bytes
  sv_verified :: bool

text \<open>Modelled from the spec: step 1 of section 4.6; a failed fetch contributes no record.\<close>

definition available :: "fetch_error + message_record list \<Rightarrow> message_record list" where
  "available fetch = (case fetch of Inl e \<Rightarrow> [] | Inr records \<Rightarrow> records)"

text \<open>Modelled from the spec: step 2 of section 4.6; a record that fails to decrypt is
  dropped.\<close>

definition decrypt_all ::
  "'k primitives \<Rightarrow> 'k \<Rightarrow> bytes \<Rightarrow> message_record list \<Rightarrow> survivor list" where
  "decrypt_all P conversation_key counterpart_signing_public raw =
     List.map_filter
       (\<lambda>r. case decrypt_and_verify P r conversation_key counterpart_signing_public of
               Inl e \<Rightarrow> None
             | Inr (plaintext, sender_identity, ok) \<Rightarrow>
                 Some \<lparr>sv_record = r, sv_plaintext = plaintext, sv_sender = sender_identity,
                       sv_verified = ok\<rparr>)
       raw"

definition record_key :: "message_record \<Rightarrow> nat \<times> bytes" where
  "record_key r = (mr_timestamp r, mr_nonce r)"

text \<open>Modelled from the spec: step 3 of section 4.6; of the records with one (timestamp,
  nonce) the first met is kept.\<close>

primrec deduplicate :: "(nat \<times> bytes) list \<Rightarrow> survivor list \<Rightarrow> survivor list" where
  "deduplicate seen [] = []"
| "deduplicate seen (x # xs) =
     (if record_key (sv_record x) \<in> set seen then deduplicate seen xs
      else x # deduplicate (record_key (sv_record x) # seen) xs)"

text \<open>Modelled from the spec: steps 2 to 4 of section 4.6; the sort is by timestamp, then by
  the nonce's bytes.\<close>

definition reconcile ::
  "'k primitives \<Rightarrow> 'k \<Rightarrow> bytes \<Rightarrow> message_record list \<Rightarrow> survivor list" where
  "reconcile P conversation_key counterpart_signing_public raw =
     sort_key (\<lambda>x. record_key (sv_record x))
       (deduplicate [] (decrypt_all P conversation_key counterpart_signing_public raw))"

text \<open>Modelled from the spec: an element of the list \<^verbatim>\<open>get_conversation\<close> returns (section 6).\<close>

record entry =
  e_content :: bytes
  e_timestamp :: nat
  e_is_own_message :: bool
  e_verified :: bool

text \<open>Modelled from the spec: steps 5 and 6 of section 4.6.\<close>

definition to_entry :: "bytes \<Rightarrow> survivor \<Rightarrow> entry" where
  "to_entry local_public x =
     \<lparr>e_content = sv_plaintext x, e_timestamp = mr_timestamp (sv_record x),
      e_is_own_message = (sv_sender x = local_public), e_verified = sv_verified x\<rparr>"

text \<open>
  Modelled from the spec: \<^verbatim>\<open>get_conversation\<close> (sections 4.6 and 6; the Rust command is
  missing). One failed fetch leaves the other side's records; two failed fetches are
  \<open>ConversationUnavailable\<close>.
\<close>

definition get_conversation ::
  "'k primitives \<Rightarrow> bytes \<Rightarrow> 'k \<Rightarrow> bytes
   \<Rightarrow> fetch_error + message_record list \<Rightarrow> fetch_error + message_record list
   \<Rightarrow> conversation_error + entry list" where
  "get_conversation P local_public conversation_key counterpart_public local_fetch counterpart_fetch =
     (case (local_fetch, counterpart_fetch) of
        (Inl e1, Inl e2) \<Rightarrow> Inl ConversationUnavailable
      | _ \<Rightarrow>
          Inr (map (to_entry local_public)
                 (reconcile P conversation_key counterpart_public
                    (available local_fetch @ available counterpart_fetch))))"

section \<open>Example states\<close>

definition alice :: profile where
  "alice = \<lparr>public_key = js ''alice''\<rparr>"

definition hello :: message where
  "hello = \<lparr>sender = js ''bob'', content = js ''hello'', timestamp = 1000,
            verified = False, is_own_message = False\<rparr>"

definition chat :: "contact2 app" where
  "chat =
     \<lparr>currentUser = Some alice, currentContact = Some (js ''bob''),
      contacts = [(js ''bob'',
                   \<lparr>contact_public_key = js ''bob'', name = None, last_message = None,
                    last_message_time = None, last_read_time = 900, unread_count = 0\<rparr>)],
      isEditingContactName = False,
      localStorage = [cacheKey alice (js ''bob'') \<mapsto>
                        CacheData \<lparr>cache_timestamp = 5, messages = [hello]\<rparr>],
      newContactInput = js '' bob '', messageInput = js ''   '',
      conversationTitle = [], contactsList = [], messagesContainer = [],
      alerts = [], invoked = [], timers = [], uncaught = []\<rparr>"

definition chat_v1 :: "contact app" where
  "chat_v1 =
     \<lparr>currentUser = Some alice, currentContact = Some (js ''bob''),
      contacts = [(js ''bob'',
                   \<lparr>contact_public_key = js ''bob'', name = None, last_message = None,
                    last_message_time = None\<rparr>)],
      isEditingContactName = False, localStorage = Map.empty,
      newContactInput = js '' bob '', messageInput = js ''   '',
      conversationTitle = [], contactsList = [], messagesContainer = [],
      alerts = [], invoked = [], timers = [], uncaught = []\<rparr>"

text \<open>
  A toy instance of the primitives: a field is open text behind a one-byte tag, and a
  signature is valid when it repeats the signer's key.
\<close>

definition toy :: "bytes primitives" where
  "toy =
     \<lparr>aead_decrypt = (\<lambda>key field nonce ciphertext.
         case ciphertext of [] \<Rightarrow> None | tag # body \<Rightarrow> if [tag] = key then Some body else None),
      canonical_digest = (\<lambda>t ec es n. ec @ es @ n),
      verify = (\<lambda>public_key digest signature. signature = public_key)\<rparr>"

definition forged :: message_record where
  "forged =
     \<lparr>mr_timestamp = 1000, mr_encrypted_sender = [7, 2], mr_encrypted_content = [7, 104, 105],
      mr_nonce = [1], mr_signature = [9]\<rparr>"


section \<open>Properties of the frontend\<close>

subsection \<open>Auxiliary facts\<close>

lemma keys_contacts_set:
  "map fst (contacts_set k v m) = (if k \<in> fst ` set m then map fst m else map fst m @ [k])"
  by (induction m) auto

lemma distinct_contacts_set:
  "distinct (map fst m) \<Longrightarrow> distinct (map fst (contacts_set k v m))"
  by (simp add: keys_contacts_set)

lemma contacts_saveContacts [simp]: "contacts (saveContacts s) = contacts s"
  by (simp add: saveContacts_def split: option.split)

lemma contacts_renderContacts [simp]: "contacts (renderContacts s) = contacts s"
  by (simp add: renderContacts_def)

lemma contacts_renderContacts_v1 [simp]: "contacts (renderContacts_v1 s) = contacts s"
  by (simp add: renderContacts_v1_def)

lemma contacts_logUser [simp]: "contacts (logUser s) = contacts s"
  by (simp add: logUser_def split: option.split)

lemma dropWhile_keeps:
  "x \<in> set xs \<Longrightarrow> \<not> P x \<Longrightarrow> x \<in> set (dropWhile P xs)"
  by (induction xs) auto

lemma dropWhile_all_imp_Nil:
  assumes "\<forall>c\<in>set (dropWhile P xs). P c"
  shows "dropWhile P xs = []"
proof (rule ccontr)
  assume n: "dropWhile P xs \<noteq> []"
  then have "\<not> P (hd (dropWhile P xs))" by (rule hd_dropWhile)
  moreover from n have "hd (dropWhile P xs) \<in> set (dropWhile P xs)" by (rule hd_in_set)
  ultimately show False using assms by blast
qed

lemma trim_eq_Nil_iff: "trim s = [] \<longleftrightarrow> (\<forall>c\<in>set s. isWhiteSpace c)"
proof
  assume "trim s = []"
  then have "\<forall>c\<in>set (dropWhile isWhiteSpace s). isWhiteSpace c"
    by (simp add: trim_def)
  then have "dropWhile isWhiteSpace s = []" by (rule dropWhile_all_imp_Nil)
  then show "\<forall>c\<in>set s. isWhiteSpace c" by simp
next
  assume "\<forall>c\<in>set s. isWhiteSpace c"
  then have d: "dropWhile isWhiteSpace s = []" by simp
  show "trim s = []" by (simp only: trim_def d rev.simps dropWhile.simps)
qed

lemma trim_not_blank:
  assumes "trim s \<noteq> []"
  shows "\<exists>c\<in>set (trim s). \<not> isWhiteSpace c"
proof -
  let ?ys = "dropWhile isWhiteSpace s"
  have n: "?ys \<noteq> []"
  proof
    assume e: "?ys = []"
    have "trim s = []" by (simp only: trim_def e rev.simps dropWhile.simps)
    with assms show False by simp
  qed
  then have h: "\<not> isWhiteSpace (hd ?ys)" by (rule hd_dropWhile)
  from n have "hd ?ys \<in> set (rev ?ys)" by simp
  then have "hd ?ys \<in> set (dropWhile isWhiteSpace (rev ?ys))" using h by (rule dropWhile_keeps)
  then have "hd ?ys \<in> set (trim s)" by (simp add: trim_def)
  with h show ?thesis by blast
qed

lemma sendMessage_blank:
  "\<not> truthy (currentContact s) \<or> (\<forall>c\<in>set (messageInput s). isWhiteSpace c) \<Longrightarrow> sendMessage now resp s = s"
  by (auto simp: sendMessage_def trim_eq_Nil_iff)

lemma invoked_saveContacts [simp]: "invoked (saveContacts s) = invoked s"
  by (simp add: saveContacts_def split: option.split)
lemma invoked_renderContacts [simp]: "invoked (renderContacts s) = invoked s"
  by (simp add: renderContacts_def)
lemma invoked_renderMessages [simp]: "invoked (renderMessages ms s) = invoked s"
  by (simp add: renderMessages_def)
lemma invoked_addMessageToCache [simp]: "invoked (addMessageToCache now k m s) = invoked s"
  by (simp add: addMessageToCache_def Let_def split: option.split stored.split)

lemma sendMessage_invoked:
  "invoked (sendMessage now resp s) =
     (if truthy (currentContact s) \<and> trim (messageInput s) \<noteq> [] \<and> currentUser s \<noteq> None
      then invoked s @ [\<lparr>cmd = ''send_message'',
                          args = [(''recipientPubkey'', the (currentContact s)),
                                  (''content'', trim (messageInput s))]\<rparr>]
      else invoked s)"
  by (auto simp: sendMessage_def Let_def split: option.split sum.split)

lemma trim_example: "trim (js '' bob '') = js ''bob''"
  by (simp add: trim_def js_def isWhiteSpace_def)

subsection \<open>Adding a contact that exists\<close>

text \<open>
  C9. When the trimmed input is a key of the contacts map, \<^verbatim>\<open>addContact\<close> (in both snapshots)
  changes nothing but the alert it shows: the map and \<^verbatim>\<open>localStorage\<close> are as before. Whatever
  the input, a map whose keys are pairwise different still has pairwise different keys
  afterwards, so no public key ever gets a second entry.
\<close>

theorem addContact_existing_key:
  fixes s :: "contact2 app" and s1 :: "contact app"
  shows "(contacts_has (trim (newContactInput s)) (contacts s) \<longrightarrow>
            addContact s = (if trim (newContactInput s) = [] then s
                            else s\<lparr>alerts := alerts s @ [js ''Contact already exists!'']\<rparr>)
            \<and> contacts (addContact s) = contacts s
            \<and> localStorage (addContact s) = localStorage s)
       \<and> (distinct (map fst (contacts s)) \<longrightarrow> distinct (map fst (contacts (addContact s))))
       \<and> (contacts_has (trim (newContactInput s1)) (contacts s1) \<longrightarrow>
            addContact_v1 s1 = (if trim (newContactInput s1) = [] then s1
                            else s1\<lparr>alerts := alerts s1 @ [js ''Contact already exists!'']\<rparr>)
            \<and> contacts (addContact_v1 s1) = contacts s1
            \<and> localStorage (addContact_v1 s1) = localStorage s1)
       \<and> (distinct (map fst (contacts s1)) \<longrightarrow> distinct (map fst (contacts (addContact_v1 s1))))"
proof (intro conjI impI)
  assume "contacts_has (trim (newContactInput s)) (contacts s)"
  then show "addContact s = (if trim (newContactInput s) = [] then s
                            else s\<lparr>alerts := alerts s @ [js ''Contact already exists!'']\<rparr>)"
    "contacts (addContact s) = contacts s" "localStorage (addContact s) = localStorage s"
    by (simp_all add: addContact_def Let_def)
next
  assume "distinct (map fst (contacts s))"
  then show "distinct (map fst (contacts (addContact s)))"
    by (simp add: addContact_def Let_def distinct_contacts_set)
next
  assume "contacts_has (trim (newContactInput s1)) (contacts s1)"
  then show "addContact_v1 s1 = (if trim (newContactInput s1) = [] then s1
                            else s1\<lparr>alerts := alerts s1 @ [js ''Contact already exists!'']\<rparr>)"
    "contacts (addContact_v1 s1) = contacts s1" "localStorage (addContact_v1 s1) = localStorage s1"
    by (simp_all add: addContact_v1_def Let_def)
next
  assume "distinct (map fst (contacts s1))"
  then show "distinct (map fst (contacts (addContact_v1 s1)))"
    by (simp add: addContact_v1_def Let_def distinct_contacts_set)
qed

theorem addContact_existing_key_witness:
  "contacts_has (trim (newContactInput chat)) (contacts chat)
   \<and> addContact chat = chat\<lparr>alerts := alerts chat @ [js ''Contact already exists!'']\<rparr>
   \<and> contacts (addContact chat) = contacts chat
   \<and> localStorage (addContact chat) = localStorage chat
   \<and> distinct (map fst (contacts chat))
   \<and> distinct (map fst (contacts (addContact chat)))
   \<and> contacts_has (trim (newContactInput chat_v1)) (contacts chat_v1)
   \<and> addContact_v1 chat_v1 = chat_v1\<lparr>alerts := alerts chat_v1 @ [js ''Contact already exists!'']\<rparr>
   \<and> distinct (map fst (contacts (addContact_v1 chat_v1)))"
proof -
  have h: "contacts_has (trim (newContactInput chat)) (contacts chat)"
    by (simp add: chat_def trim_example contacts_has_def)
  have "trim (newContactInput chat) = js ''bob''"
    by (simp add: chat_def trim_example)
  then have n: "trim (newContactInput chat) \<noteq> []"
    by (simp add: js_def)
  have d: "distinct (map fst (contacts chat))"
    by (simp add: chat_def)
  have h1: "contacts_has (trim (newContactInput chat_v1)) (contacts chat_v1)"
    by (simp add: chat_v1_def trim_example contacts_has_def)
  have "trim (newContactInput chat_v1) = js ''bob''"
    by (simp add: chat_v1_def trim_example)
  then have n1: "trim (newContactInput chat_v1) \<noteq> []"
    by (simp add: js_def)
  have d1: "distinct (map fst (contacts chat_v1))"
    by (simp add: chat_v1_def)
  show ?thesis
    using addContact_existing_key [of chat chat_v1] h n d h1 n1 d1 by simp
qed

subsection \<open>Sending nothing\<close>

text \<open>
  C10. With no contact selected, or with an input that is empty or all white space,
  \<^verbatim>\<open>sendMessage\<close> returns the state it was given: no backend call, no change to the message
  cache or to the contacts. In every state, the only call \<^verbatim>\<open>sendMessage\<close> can add is one
  \<^verbatim>\<open>send_message\<close> to a selected contact whose content is not empty and holds a code unit
  that is not white space.
\<close>

theorem sendMessage_never_blank:
  "(\<not> truthy (currentContact s) \<or> (\<forall>c\<in>set (messageInput s). isWhiteSpace c)
      \<longrightarrow> sendMessage now resp s = s)
   \<and> (invoked (sendMessage now resp s) = invoked s
        \<or> (\<exists>body. invoked (sendMessage now resp s) =
                      invoked s @ [\<lparr>cmd = ''send_message'',
                                    args = [(''recipientPubkey'', the (currentContact s)),
                                            (''content'', body)]\<rparr>]
                   \<and> truthy (currentContact s) \<and> body \<noteq> []
                   \<and> (\<exists>c\<in>set body. \<not> isWhiteSpace c)))"
proof (intro conjI impI)
  assume "\<not> truthy (currentContact s) \<or> (\<forall>c\<in>set (messageInput s). isWhiteSpace c)"
  then show "sendMessage now resp s = s" by (rule sendMessage_blank)
next
  show "invoked (sendMessage now resp s) = invoked s
        \<or> (\<exists>body. invoked (sendMessage now resp s) =
                      invoked s @ [\<lparr>cmd = ''send_message'',
                                    args = [(''recipientPubkey'', the (currentContact s)),
                                            (''content'', body)]\<rparr>]
                   \<and> truthy (currentContact s) \<and> body \<noteq> []
                   \<and> (\<exists>c\<in>set body. \<not> isWhiteSpace c))"
  proof (cases "truthy (currentContact s) \<and> trim (messageInput s) \<noteq> [] \<and> currentUser s \<noteq> None")
    case True
    then have n: "trim (messageInput s) \<noteq> []" by blast
    then have "\<exists>c\<in>set (trim (messageInput s)). \<not> isWhiteSpace c" by (rule trim_not_blank)
    moreover have "invoked (sendMessage now resp s) =
        invoked s @ [\<lparr>cmd = ''send_message'',
                       args = [(''recipientPubkey'', the (currentContact s)),
                               (''content'', trim (messageInput s))]\<rparr>]"
      using True by (simp add: sendMessage_invoked)
    ultimately show ?thesis using True n by blast
  next
    case False
    then have "invoked (sendMessage now resp s) = invoked s"
      by (auto simp: sendMessage_invoked)
    then show ?thesis by blast
  qed
qed

theorem sendMessage_never_blank_witness:
  "list_all isWhiteSpace (messageInput chat)
   \<and> sendMessage 1700000000000 (Inr ()) chat = chat
   \<and> invoked (sendMessage 1700000000000 (Inr ()) chat) = invoked chat"
proof -
  have h: "\<forall>c\<in>set (messageInput chat). isWhiteSpace c"
    by (simp add: chat_def js_def isWhiteSpace_def)
  then have e: "sendMessage 1700000000000 (Inr ()) chat = chat"
    using sendMessage_never_blank [of chat 1700000000000 "Inr ()"] by blast
  from h e show ?thesis by (simp add: list_all_iff)
qed

subsection \<open>Polling\<close>


lemma contacts_saveMessagesCache [simp]: "contacts (saveMessagesCache now k ms s) = contacts s"
  by (simp add: saveMessagesCache_def split: option.split)

lemma invoked_saveMessagesCache [simp]: "invoked (saveMessagesCache now k ms s) = invoked s"
  by (simp add: saveMessagesCache_def split: option.split)

lemma contacts_renderMessages [simp]: "contacts (renderMessages ms s) = contacts s"
  by (simp add: renderMessages_def)

lemma invoked_markContactAsRead [simp]: "invoked (markContactAsRead now k s) = invoked s"
  by (simp add: markContactAsRead_def Let_def split: option.split)








lemma currentContact_saveContacts [simp]: "currentContact (saveContacts s) = currentContact s"
  by (simp add: saveContacts_def split: option.split)

lemma currentContact_renderContacts [simp]: "currentContact (renderContacts s) = currentContact s"
  by (simp add: renderContacts_def)

lemma currentContact_saveMessagesCache [simp]:
  "currentContact (saveMessagesCache now k ms s) = currentContact s"
  by (simp add: saveMessagesCache_def split: option.split)









lemma contacts_markContactAsRead_renderMessages:
  "contacts (markContactAsRead now k (renderMessages ms s)) = contacts (markContactAsRead now k s)"
  by (simp add: markContactAsRead_def Let_def renderMessages_def split: option.split)










subsection \<open>A failed load keeps the cached conversation\<close>

lemma localStorage_renderMessages [simp]: "localStorage (renderMessages ms s) = localStorage s"
  by (simp add: renderMessages_def)

lemma loadMessagesCache_invoked [simp]:
  "loadMessagesCache k (s\<lparr>invoked := i\<rparr>) = loadMessagesCache k s"
  by (simp add: loadMessagesCache_def split: option.split)

lemma loadMessagesCache_title [simp]:
  "loadMessagesCache k (s\<lparr>conversationTitle := i\<rparr>) = loadMessagesCache k s"
  by (simp add: loadMessagesCache_def split: option.split)

lemma loadMessagesCache_renderMessages [simp]:
  "loadMessagesCache k (renderMessages ms s) = loadMessagesCache k s"
  by (simp add: loadMessagesCache_def renderMessages_def split: option.split)

lemma loadConversation_failed_view:
  "messagesContainer (loadConversation now pubkey (Inl err) s) =
       (case loadMessagesCache pubkey s of
          None \<Rightarrow> messagesContainer s
        | Some ms \<Rightarrow> if ms = [] then messagesContainer s
                     else messagesContainer (renderMessages ms s))"
  by (simp add: loadConversation_def Let_def split: option.split)
     (simp add: renderMessages_def)

lemma loadConversation_failed_storage:
  "localStorage (loadConversation now pubkey (Inl err) s) = localStorage s"
  by (simp add: loadConversation_def Let_def split: option.split)

lemma loadConversation_failed_contacts:
  "contacts (loadConversation now pubkey (Inl err) s) = contacts s"
  by (simp add: loadConversation_def Let_def split: option.split)

lemma render_hello:
  "messagesContainer (renderMessages [hello] chat) =
     [\<lparr>el_own = False, el_content = js ''hello'', el_timestamp = 1000, el_verified = Warning\<rparr>]"
  by (simp add: renderMessages_def hello_def)

lemma loadMessagesCache_chat: "loadMessagesCache (js ''bob'') chat = Some [hello]"
  by (simp add: loadMessagesCache_def chat_def)


section \<open>Properties of the read path\<close>

lemma get_conversation_one_side:
  "get_conversation P me k cp (Inr l) (Inl e) = Inr (map (to_entry me) (reconcile P k cp l))"
  "get_conversation P me k cp (Inl e) (Inr c) = Inr (map (to_entry me) (reconcile P k cp c))"
  "get_conversation P me k cp (Inl e) (Inl e') = Inl ConversationUnavailable"
  by (simp_all add: get_conversation_def available_def)

lemma get_conversation_unavailable_iff:
  "get_conversation P me k cp lf cf = Inl ConversationUnavailable
     \<longleftrightarrow> (\<exists>e1 e2. lf = Inl e1 \<and> cf = Inl e2)"
  by (cases lf; cases cf) (simp_all add: get_conversation_def)

lemma reconcile_forged:
  "map (to_entry [2]) (reconcile toy [7] [3] [forged]) =
     [\<lparr>e_content = [104, 105], e_timestamp = 1000, e_is_own_message = True,
       e_verified = False\<rparr>]"
  by (simp add: reconcile_def decrypt_all_def decrypt_and_verify_def toy_def forged_def
      to_entry_def List.map_filter_simps)













text \<open>
  C7. With one fetch failed, \<^verbatim>\<open>get_conversation\<close> returns the entries made of the other side's
  records; it is \<open>ConversationUnavailable\<close> exactly when both fetches failed. When the call
  is rejected, \<^verbatim>\<open>loadConversation\<close> leaves \<^verbatim>\<open>localStorage\<close> and the contacts as they were and
  shows the cached messages if the cache has any; otherwise the view stays as it was.
\<close>

theorem one_failed_fetch_is_not_an_error:
  "get_conversation P me k cp (Inr l) (Inl e) = Inr (map (to_entry me) (reconcile P k cp l))
   \<and> get_conversation P me k cp (Inl e) (Inr c) = Inr (map (to_entry me) (reconcile P k cp c))
   \<and> get_conversation P me k cp (Inl e) (Inl e') = Inl ConversationUnavailable
   \<and> (get_conversation P me k cp lf cf = Inl ConversationUnavailable
        \<longleftrightarrow> (\<exists>e1 e2. lf = Inl e1 \<and> cf = Inl e2))
   \<and> messagesContainer (loadConversation now pubkey (Inl err) s) =
       (case loadMessagesCache pubkey s of
          None \<Rightarrow> messagesContainer s
        | Some ms \<Rightarrow> if ms = [] then messagesContainer s
                     else messagesContainer (renderMessages ms s))
   \<and> localStorage (loadConversation now pubkey (Inl err) s) = localStorage s
   \<and> contacts (loadConversation now pubkey (Inl err) s) = contacts s"
proof (intro conjI)
  show "get_conversation P me k cp (Inr l) (Inl e) = Inr (map (to_entry me) (reconcile P k cp l))"
    by (rule get_conversation_one_side)
  show "get_conversation P me k cp (Inl e) (Inr c) = Inr (map (to_entry me) (reconcile P k cp c))"
    by (rule get_conversation_one_side)
  show "get_conversation P me k cp (Inl e) (Inl e') = Inl ConversationUnavailable"
    by (rule get_conversation_one_side)
  show "get_conversation P me k cp lf cf = Inl ConversationUnavailable
        \<longleftrightarrow> (\<exists>e1 e2. lf = Inl e1 \<and> cf = Inl e2)"
    by (rule get_conversation_unavailable_iff)
  show "messagesContainer (loadConversation now pubkey (Inl err) s) =
       (case loadMessagesCache pubkey s of
          None \<Rightarrow> messagesContainer s
        | Some ms \<Rightarrow> if ms = [] then messagesContainer s
                     else messagesContainer (renderMessages ms s))"
    by (rule loadConversation_failed_view)
  show "localStorage (loadConversation now pubkey (Inl err) s) = localStorage s"
    by (rule loadConversation_failed_storage)
  show "contacts (loadConversation now pubkey (Inl err) s) = contacts s"
    by (rule loadConversation_failed_contacts)
qed

theorem one_failed_fetch_is_not_an_error_witness:
  "get_conversation toy [2] [7] [3] (Inr [forged]) (Inl StorageUnavailable) =
     Inr [\<lparr>e_content = [104, 105], e_timestamp = 1000, e_is_own_message = True,
           e_verified = False\<rparr>]
   \<and> get_conversation toy [2] [7] [3] (Inl StorageUnavailable) (Inl StorageUnavailable) =
       Inl ConversationUnavailable
   \<and> messagesContainer (loadConversation 0 (js ''bob'') (Inl (js ''offline'')) chat) =
       [\<lparr>el_own = False, el_content = js ''hello'', el_timestamp = 1000, el_verified = Warning\<rparr>]"
proof -
  note t = one_failed_fetch_is_not_an_error
             [where P = toy and me = "[2]" and k = "[7]" and cp = "[3]" and l = "[forged]"
                and e = StorageUnavailable and e' = StorageUnavailable and c = "[]"
                and lf = "Inl StorageUnavailable" and cf = "Inl StorageUnavailable"
                and now = 0 and pubkey = "js ''bob''" and err = "js ''offline''" and s = chat]
  from t have a: "get_conversation toy [2] [7] [3] (Inr [forged]) (Inl StorageUnavailable) =
      Inr (map (to_entry [2]) (reconcile toy [7] [3] [forged]))"
    by (rule conjunct1)
  from t have b: "get_conversation toy [2] [7] [3] (Inl StorageUnavailable) (Inl StorageUnavailable) =
       Inl ConversationUnavailable"
    by blast
  from t have "messagesContainer (loadConversation 0 (js ''bob'') (Inl (js ''offline'')) chat) =
       (case loadMessagesCache (js ''bob'') chat of
          None \<Rightarrow> messagesContainer chat
        | Some ms \<Rightarrow> if ms = [] then messagesContainer chat
                     else messagesContainer (renderMessages ms chat))"
    by blast
  then have c: "messagesContainer (loadConversation 0 (js ''bob'') (Inl (js ''offline'')) chat) =
       messagesContainer (renderMessages [hello] chat)"
    by (simp add: loadMessagesCache_chat)
  from a b c show ?thesis
    by (simp only: reconcile_forged render_hello simp_thms)
qed

end
